theory Spec2Isabelle
  imports Main "HOL-Library.Word"
begin

section \<open>Element.h: pin collections and the element lifecycle\<close>

text \<open>
  The development embeds \<^verbatim>\<open>src/Element.h\<close>: the class template \<^verbatim>\<open>PinCollection\<close> and the
  class \<^verbatim>\<open>Element\<close> with its worker routine \<^verbatim>\<open>InternalWorkThread\<close>. Member functions
  become functions on a record of the object's fields. A function that can throw
  returns an outcome next to the fields as they are when it returns or throws, so
  that what a failed call leaves behind is part of the model.
\<close>

subsection \<open>Exceptions and enumerations\<close>

text \<open>
  The exception classes are declared in a header that is not part of the sources at
  hand; only their names and constructor arguments occur in \<^verbatim>\<open>Element.h\<close>. The string is
  the message given to the constructor (empty for the default constructor).
\<close>

datatype exception =
    ArgumentOutOfRangeException
  | InvalidOperationException string
  | Exception string

datatype ExecutionState = WaitingForExecute | Initializing | Executing | Terminating

text \<open>
  Modelled from the spec: \<^verbatim>\<open>MediaState\<close> is declared outside \<^verbatim>\<open>Element.h\<close>. The element
  starts in \<^verbatim>\<open>Pause\<close> and only ever compares the value with \<^verbatim>\<open>Play\<close>.
\<close>

datatype MediaState = Pause | Play

text \<open>
  The outcome of a call made by a controlling thread: it returns, it throws, or it
  never returns because the calling thread stays blocked (in \<^verbatim>\<open>pthread_mutex_lock\<close> or in
  the join of the worker).
\<close>

datatype outcome = Returned | Threw exception | NeverReturns

subsection \<open>PinCollection\<close>

record 'p PinCollection =
  pins :: "'p list"

definition Add :: "'p \<Rightarrow> 'p PinCollection \<Rightarrow> 'p PinCollection" where
  "Add v c = c\<lparr>pins := pins c @ [v]\<rparr>"

definition Clear :: "'p PinCollection \<Rightarrow> 'p PinCollection" where
  "Clear c = c\<lparr>pins := []\<rparr>"

text \<open>\<^verbatim>\<open>int Count() const { return pins.size(); }\<close>: the size converted to a 32-bit \<^verbatim>\<open>int\<close>.\<close>

definition Count :: "'p PinCollection \<Rightarrow> 32 word" where
  "Count c = of_nat (length (pins c))"

text \<open>
  The result of \<^verbatim>\<open>Item\<close>. Besides returning a handle and throwing there is a third
  outcome: \<^verbatim>\<open>pins[index]\<close> is the unchecked \<^verbatim>\<open>operator[]\<close> of \<^verbatim>\<open>std::vector\<close>, and an index that
  passes the guard without being below the size reads past the last element, which
  C++ leaves undefined.
\<close>

datatype 'p item_result = ItemReturned 'p | ItemThrew exception | ItemReadPastEnd

text \<open>
  \<^verbatim>\<open>if (index < 0 || index > pins.size()) throw ArgumentOutOfRangeException();
  return pins[index];\<close>

  \<^verbatim>\<open>index\<close> is a 32-bit signed \<^verbatim>\<open>int\<close>. The second comparison converts it to the unsigned
  \<^verbatim>\<open>size_t\<close>; it is only evaluated when \<^verbatim>\<open>index < 0\<close> is false, where the conversion keeps
  the value.
\<close>

definition Item :: "'p PinCollection \<Rightarrow> 32 word \<Rightarrow> 'p item_result" where
  "Item c index =
     (if sint index < 0 \<or> int (length (pins c)) < sint index
      then ItemThrew ArgumentOutOfRangeException
      else if nat (sint index) < length (pins c)
      then ItemReturned (pins c ! nat (sint index))
      else ItemReadPastEnd)"

subsection \<open>Events\<close>

text \<open>
  Calls that leave the class (a pin's \<^verbatim>\<open>Flush\<close>, the operations of the worker thread
  object, the signal on the execution-state condition) and calls of the overridable
  member functions are recorded, in the order in which they happen, in a trace kept
  next to the fields. Pin handles are shared pointers; they are modelled by the
  address they hold. The event of a pin's \<^verbatim>\<open>Flush\<close> also records the execution status
  that the element has at the time of the call, which is what the pin would read
  from \<^verbatim>\<open>Status()\<close>: it tells whether the status was written before or after the flush.
\<close>

type_synonym InPinSPTR = nat
type_synonym OutPinSPTR = nat

datatype event =
    InPinFlush InPinSPTR ExecutionState
  | OutPinFlush OutPinSPTR ExecutionState
  | SignalExecutionState ExecutionState
  | CallInitialize
  | CallDoWork
  | CallChangeState MediaState MediaState
  | CallWake
  | ThreadStart
  | ThreadCancel
  | ThreadJoin

text \<open>
  \<^verbatim>\<open>for (auto pin : pins) { pin->Flush(); }\<close> The pin's own \<^verbatim>\<open>Flush\<close> is outside
  \<^verbatim>\<open>Element.h\<close>; it is the parameter \<open>pinFlush\<close>, the event the call leaves in the trace.
\<close>

fun flush_loop :: "('p \<Rightarrow> event) \<Rightarrow> 'p list \<Rightarrow> event list \<Rightarrow> event list" where
  "flush_loop pinFlush [] tr = tr"
| "flush_loop pinFlush (pin # rest) tr = flush_loop pinFlush rest (tr @ [pinFlush pin])"

definition PinCollection_Flush ::
    "('p \<Rightarrow> event) \<Rightarrow> 'p PinCollection \<Rightarrow> event list \<Rightarrow> event list" where
  "PinCollection_Flush pinFlush c tr = flush_loop pinFlush (pins c) tr"

subsection \<open>The worker thread object\<close>

text \<open>
  The places of \<^verbatim>\<open>InternalWorkThread\<close> between which the worker moves in one step:
  \<^item> \<open>NotStarted\<close>: no routine has been started;
  \<^item> \<open>AtEntry\<close>: before line 160 (log, \<^verbatim>\<open>SetExecutionState(Initializing)\<close>, \<^verbatim>\<open>Initialize()\<close>);
  \<^item> \<open>AtSetExecuting\<close>: before line 165;
  \<^item> \<open>AtLoopCheck\<close>: at the test \<^verbatim>\<open>status == ExecutionState::Executing\<close> of line 166;
  \<^item> \<open>AtLoopBody\<close>: before line 168 (the test of the play state, \<^verbatim>\<open>DoWork()\<close>, the log);
  \<^item> \<open>AtSleepGate\<close>: before \<^verbatim>\<open>pthread_mutex_lock(&waitMutex)\<close> of line 175;
  \<^item> \<open>InCondWait\<close>: inside \<^verbatim>\<open>pthread_cond_wait\<close> of line 179, the mutex released;
  \<^item> \<open>AtExit\<close>: before line 191, after the loop;
  \<^item> \<open>Finished\<close>: the routine has returned;
  \<^item> \<open>Cancelled\<close>: the worker was stopped by force and runs no further statement.
\<close>

datatype worker_pc =
    NotStarted
  | AtEntry
  | AtSetExecuting
  | AtLoopCheck
  | AtLoopBody
  | AtSleepGate
  | InCondWait
  | AtExit
  | Finished
  | Cancelled

text \<open>
  Modelled from the spec: the class \<^verbatim>\<open>Thread\<close> is declared outside \<^verbatim>\<open>Element.h\<close>. The spec
  gives its contract: it is built from the work routine; \<^verbatim>\<open>Start\<close> begins running that
  routine asynchronously, \<^verbatim>\<open>Cancel\<close> requests a forced stop, which interrupts the worker
  when it is parked in the sleep-gate wait, and \<^verbatim>\<open>Join\<close> blocks until the routine is over.
  The object is modelled by the place the routine has reached and by whether a forced
  stop has been requested. The contract does not say whether \<^verbatim>\<open>Start\<close> can fail, nor what
  a second \<^verbatim>\<open>Start\<close> does while the routine of the first is still running; whether a call
  of \<^verbatim>\<open>Start\<close> is accepted is therefore an input of \<open>Execute\<close> below, and \<open>Thread_Start\<close> is
  the effect of a call that is accepted. The model has one worker: a \<^verbatim>\<open>Start\<close> accepted
  while the routine of an earlier one has not yet run its first statement leaves
  that one worker at the entry. What the forced stop does to \<^verbatim>\<open>waitMutex\<close> is not part of
  the contract either; the model leaves the mutex as it is.
\<close>

record Thread =
  pc :: worker_pc
  cancelRequested :: bool

definition Thread_Start :: "Thread \<Rightarrow> Thread" where
  "Thread_Start t = t\<lparr>pc := AtEntry, cancelRequested := False\<rparr>"

definition Thread_Cancel :: "Thread \<Rightarrow> Thread" where
  "Thread_Cancel t = t\<lparr>cancelRequested := True\<rparr>"

subsection \<open>Element: fields and private helpers\<close>

text \<open>
  The fields of \<^verbatim>\<open>Element\<close> with the names of the source. \<open>waitMutex\<close> is true while the
  mutex is locked. The condition variables have no state of their own in the model:
  a waiter of a condition is a place of the waiting thread. \<open>trace\<close> is the record of
  events, \<open>err\<close> the text \<^verbatim>\<open>Log\<close> has written to the error stream.
\<close>

record Element =
  thread :: Thread
  state :: MediaState
  inputs :: "InPinSPTR PinCollection"
  outputs :: "OutPinSPTR PinCollection"
  status :: ExecutionState
  waitMutex :: bool
  canSleep :: bool
  name :: string
  logEnabled :: bool
  trace :: "event list"
  err :: "string list"

text \<open>The member initialisers and the empty constructor.\<close>

definition new_Element :: Element where
  "new_Element =
     \<lparr>thread = \<lparr>pc = NotStarted, cancelRequested = False\<rparr>,
      state = Pause,
      inputs = \<lparr>pins = []\<rparr>,
      outputs = \<lparr>pins = []\<rparr>,
      status = WaitingForExecute,
      waitMutex = False,
      canSleep = True,
      name = ''Element'',
      logEnabled = False,
      trace = [],
      err = []\<rparr>"

text \<open>
  \<^verbatim>\<open>Log\<close> writes only when \<^verbatim>\<open>logEnabled\<close> is set. The model keeps the format string of the
  message (without its final newline); the time stamp and the formatted arguments
  are left out.
\<close>

definition Log :: "string \<Rightarrow> Element \<Rightarrow> Element" where
  "Log message e = (if logEnabled e then e\<lparr>err := err e @ [message]\<rparr> else e)"

text \<open>
  \<^verbatim>\<open>status = state;\<close> followed by the signal on \<^verbatim>\<open>executionWaitCondition\<close> under its mutex.
  The mutex is released again before the function returns.
\<close>

definition SetExecutionState :: "ExecutionState \<Rightarrow> Element \<Rightarrow> Element" where
  "SetExecutionState s e = e\<lparr>status := s, trace := trace e @ [SignalExecutionState s]\<rparr>"

text \<open>The overridable member functions, with the bodies of the base class.\<close>

definition Initialize :: "Element \<Rightarrow> Element" where
  "Initialize e = e\<lparr>trace := trace e @ [CallInitialize]\<rparr>"

definition DoWork :: "Element \<Rightarrow> Element" where
  "DoWork e = Log ''Element (%s) DoWork exited.'' (e\<lparr>trace := trace e @ [CallDoWork]\<rparr>)"

definition Flush :: "Element \<Rightarrow> Element" where
  "Flush e =
     Log ''Element (%s) Flush exited.''
       (e\<lparr>trace := PinCollection_Flush (\<lambda>pin. OutPinFlush pin (status e)) (outputs e)
                      (PinCollection_Flush (\<lambda>pin. InPinFlush pin (status e)) (inputs e)
                         (trace e))\<rparr>)"

definition AddInputPin :: "InPinSPTR \<Rightarrow> Element \<Rightarrow> Element" where
  "AddInputPin pin e = e\<lparr>inputs := Add pin (inputs e)\<rparr>"

definition ClearInputPins :: "Element \<Rightarrow> Element" where
  "ClearInputPins e = e\<lparr>inputs := Clear (inputs e)\<rparr>"

definition AddOutputPin :: "OutPinSPTR \<Rightarrow> Element \<Rightarrow> Element" where
  "AddOutputPin pin e = e\<lparr>outputs := Add pin (outputs e)\<rparr>"

definition ClearOutputPins :: "Element \<Rightarrow> Element" where
  "ClearOutputPins e = e\<lparr>outputs := Clear (outputs e)\<rparr>"

subsection \<open>InternalWorkThread, one step at a time\<close>

definition goto :: "worker_pc \<Rightarrow> Element \<Rightarrow> Element" where
  "goto l e = e\<lparr>thread := (thread e)\<lparr>pc := l\<rparr>\<rparr>"

text \<open>
  Lines 177 to 186, entered with \<^verbatim>\<open>waitMutex\<close> acquired. The region runs under the mutex,
  so it is one step. When \<^verbatim>\<open>canSleep\<close> holds the worker enters \<^verbatim>\<open>pthread_cond_wait\<close>, which
  releases the mutex; there a requested forced stop takes the worker away. Otherwise
  the worker sets \<^verbatim>\<open>canSleep\<close> again, releases the mutex and goes back to the loop test.
\<close>

definition sleep_gate :: "Element \<Rightarrow> Element" where
  "sleep_gate e =
     (if canSleep e
      then (if cancelRequested (thread e) then goto Cancelled e else goto InCondWait e)
      else goto AtLoopCheck
             (Log ''Element (%s) InternalWorkThread woke.'' (e\<lparr>canSleep := True\<rparr>)))"

text \<open>
  One step of the worker; \<open>None\<close> when the worker cannot move: it has not been started,
  it is over, it waits for a locked \<^verbatim>\<open>waitMutex\<close>, or it is parked in \<^verbatim>\<open>pthread_cond_wait\<close>
  with \<^verbatim>\<open>canSleep\<close> still set (a wake-up that finds \<^verbatim>\<open>canSleep\<close> set goes back into the wait
  by the \<^verbatim>\<open>while\<close> of line 177, so it is no move).
\<close>

definition worker_step :: "Element \<Rightarrow> Element option" where
  "worker_step e =
     (case pc (thread e) of
        NotStarted \<Rightarrow> None
      | AtEntry \<Rightarrow>
          Some (goto AtSetExecuting
            (Initialize (SetExecutionState Initializing
               (Log ''Element (%s) InternalWorkThread entered.'' e))))
      | AtSetExecuting \<Rightarrow> Some (goto AtLoopCheck (SetExecutionState Executing e))
      | AtLoopCheck \<Rightarrow>
          Some (if status e = Executing then goto AtLoopBody e else goto AtExit e)
      | AtLoopBody \<Rightarrow>
          Some (goto AtSleepGate
            (Log ''Element (%s) InternalWorkThread sleeping.''
               (if state e = Play then DoWork e else e)))
      | AtSleepGate \<Rightarrow> (if waitMutex e then None else Some (sleep_gate e))
      | InCondWait \<Rightarrow>
          (if cancelRequested (thread e) then Some (goto Cancelled e)
           else if waitMutex e \<or> canSleep e then None
           else Some (sleep_gate e))
      | AtExit \<Rightarrow>
          Some (goto Finished
            (Log ''Element (%s) InternalWorkThread exited.''
               (SetExecutionState WaitingForExecute e)))
      | Finished \<Rightarrow> None
      | Cancelled \<Rightarrow> None)"

fun worker_steps :: "nat \<Rightarrow> Element \<Rightarrow> Element option" where
  "worker_steps 0 e = Some e"
| "worker_steps (Suc k) e =
     (case worker_step e of None \<Rightarrow> None | Some e' \<Rightarrow> worker_steps k e')"

text \<open>
  The worker running on its own until it cannot move. It always gets there: a pass
  through the gate sets \<^verbatim>\<open>canSleep\<close>, and the next pass parks.
\<close>

fun pc_rank :: "worker_pc \<Rightarrow> nat" where
  "pc_rank AtEntry = 7"
| "pc_rank AtSetExecuting = 6"
| "pc_rank AtLoopCheck = 5"
| "pc_rank AtLoopBody = 4"
| "pc_rank AtSleepGate = 3"
| "pc_rank InCondWait = 2"
| "pc_rank AtExit = 1"
| "pc_rank NotStarted = 0"
| "pc_rank Finished = 0"
| "pc_rank Cancelled = 0"

definition worker_measure :: "Element \<Rightarrow> nat" where
  "worker_measure e = (if canSleep e then 0 else 8) + pc_rank (pc (thread e))"

function worker_run :: "Element \<Rightarrow> Element" where
  "worker_run e = (case worker_step e of None \<Rightarrow> e | Some e' \<Rightarrow> worker_run e')"
  by pat_completeness auto
termination
  by (relation "measure worker_measure")
     (auto simp: worker_step_def worker_measure_def sleep_gate_def goto_def Log_def DoWork_def
        Initialize_def SetExecutionState_def
        split: worker_pc.splits if_splits)

declare worker_run.simps [simp del]

text \<open>
  Modelled from the spec: \<^verbatim>\<open>Thread::Join\<close> blocks the caller until the routine is over.
  While the caller is blocked only the worker moves; when the worker gets stuck
  before its end the caller never returns.
\<close>

definition Thread_Join :: "Element \<Rightarrow> outcome \<times> Element" where
  "Thread_Join e =
     (let e' = worker_run e
      in if pc (thread e') = Finished \<or> pc (thread e') = Cancelled
         then (Returned, e') else (NeverReturns, e'))"

subsection \<open>Element: public member functions\<close>

definition Status :: "Element \<Rightarrow> ExecutionState" where
  "Status e = status e"

definition State :: "Element \<Rightarrow> MediaState" where
  "State e = state e"

definition Name :: "Element \<Rightarrow> string" where
  "Name e = name e"

definition SetName :: "string \<Rightarrow> Element \<Rightarrow> Element" where
  "SetName n e = e\<lparr>name := n\<rparr>"

definition LogEnabled :: "Element \<Rightarrow> bool" where
  "LogEnabled e = logEnabled e"

definition SetLogEnabled :: "bool \<Rightarrow> Element \<Rightarrow> Element" where
  "SetLogEnabled v e = e\<lparr>logEnabled := v\<rparr>"

text \<open>
  \<open>sr\<close> is what \<^verbatim>\<open>thread.Start()\<close> does in this call: \<open>None\<close> when it starts the routine and
  returns, \<open>Some x\<close> when it throws \<open>x\<close>. When it throws, \<^verbatim>\<open>Execute\<close> has written no field
  and the exception leaves \<^verbatim>\<open>Execute\<close>. \<^verbatim>\<open>Execute\<close> itself never writes \<^verbatim>\<open>status\<close>: that is
  left to the worker (line 162).
\<close>

definition Execute :: "exception option \<Rightarrow> Element \<Rightarrow> outcome \<times> Element" where
  "Execute sr e =
     (if status e \<noteq> WaitingForExecute
      then (Threw (InvalidOperationException
                     ''status != ExecutionState::WaitingForExecute''), e)
      else
        case sr of
          Some x \<Rightarrow> (Threw x, e)
        | None \<Rightarrow>
            (Returned,
             Log ''Element (%s) Execute.''
               (e\<lparr>thread := Thread_Start (thread e), trace := trace e @ [ThreadStart]\<rparr>)))"

text \<open>
  \<open>rc\<close> is what \<^verbatim>\<open>pthread_cond_broadcast\<close> returns in this call. A caller that finds
  \<^verbatim>\<open>waitMutex\<close> locked stays in \<^verbatim>\<open>pthread_mutex_lock\<close>: the worker holds the mutex only
  inside one of its steps, so a mutex that is locked between steps is one that a
  failed \<^verbatim>\<open>Wake\<close> has left locked, and nobody unlocks it. The \<^verbatim>\<open>throw\<close> of line 279 comes
  before the unlock of line 282.
\<close>

definition Wake :: "int \<Rightarrow> Element \<Rightarrow> outcome \<times> Element" where
  "Wake rc e0 =
     (let e = e0\<lparr>trace := trace e0 @ [CallWake]\<rparr>
      in if waitMutex e then (NeverReturns, e)
         else
           let e1 = e\<lparr>waitMutex := True\<rparr>;
               e2 = e1\<lparr>canSleep := False\<rparr>
           in if rc \<noteq> 0
              then (Threw (Exception ''Element::Wake - pthread_cond_broadcast failed.''), e2)
              else (Returned, Log ''Element (%s) Wake.'' (e2\<lparr>waitMutex := False\<rparr>)))"

definition Terminate :: "Element \<Rightarrow> outcome \<times> Element" where
  "Terminate e =
     (if status e \<noteq> Executing
      then (Threw (InvalidOperationException []), e)
      else
        let e1 = SetExecutionState Terminating e;
            e2 = Flush e1;
            e3 = e2\<lparr>thread := Thread_Cancel (thread e2), trace := trace e2 @ [ThreadCancel]\<rparr>;
            (r, e4) = Thread_Join (e3\<lparr>trace := trace e3 @ [ThreadJoin]\<rparr>)
        in case r of
             Returned \<Rightarrow> (Returned, Log ''Element (%s) Terminate.'' e4)
           | _ \<Rightarrow> (r, e4))"

text \<open>\<open>rc\<close> is handed on to the \<^verbatim>\<open>Wake\<close> that \<^verbatim>\<open>ChangeState\<close> calls.\<close>

definition ChangeState :: "int \<Rightarrow> MediaState \<Rightarrow> MediaState \<Rightarrow> Element \<Rightarrow> outcome \<times> Element" where
  "ChangeState rc oldState newState e =
     (let e1 = e\<lparr>trace := trace e @ [CallChangeState oldState newState]\<rparr>;
          e2 = e1\<lparr>state := newState\<rparr>;
          (r, e3) = Wake rc e2
      in case r of
           Returned \<Rightarrow>
             (Returned, Log ''Element (%s) ChangeState oldState=%d newState=%d.'' e3)
         | _ \<Rightarrow> (r, e3))"

definition SetState :: "int \<Rightarrow> MediaState \<Rightarrow> Element \<Rightarrow> outcome \<times> Element" where
  "SetState rc v e =
     (if state e \<noteq> v then ChangeState rc (state e) v e else (Returned, e))"

text \<open>\<open>n\<close> calls of \<^verbatim>\<open>Wake\<close> in a row, each broadcast succeeding; a call that does not
  return normally ends the sequence.\<close>

fun Wake_times :: "nat \<Rightarrow> Element \<Rightarrow> outcome \<times> Element" where
  "Wake_times 0 e = (Returned, e)"
| "Wake_times (Suc n) e =
     (case Wake 0 e of (Returned, e') \<Rightarrow> Wake_times n e' | (r, e') \<Rightarrow> (r, e'))"

subsection \<open>Reference states and predicates of the statements\<close>

text \<open>
  An element as it stands after construction with two input pins and one output pin,
  \<^verbatim>\<open>Execute()\<close> (the worker started), and the worker having run until it parks: executing, paused, the worker
  inside the wait of the sleep gate.
\<close>

definition parked_Element :: Element where
  "parked_Element =
     worker_run
       (snd (Execute None (AddOutputPin 5 (AddInputPin 4 (AddInputPin 3 new_Element)))))"

text \<open>The same element after \<^verbatim>\<open>SetState(Play)\<close> and the worker having parked again.\<close>

definition playing_Element :: Element where
  "playing_Element = worker_run (snd (SetState 0 Play parked_Element))"



text \<open>The worker is inside the loop of line 166 and the status is \<^verbatim>\<open>Executing\<close>.\<close>

definition in_loop :: "Element \<Rightarrow> bool" where
  "in_loop e =
     (pc (thread e) \<in> {AtLoopCheck, AtLoopBody, AtSleepGate, InCondWait}
      \<and> status e = Executing)"





section \<open>Properties\<close>

subsection \<open>Auxiliary facts\<close>


lemma worker_run_stuck: "worker_step e = None \<Longrightarrow> worker_run e = e"
  by (simp add: worker_run.simps)

lemma worker_run_step: "worker_step e = Some e' \<Longrightarrow> worker_run e = worker_run e'"
  by (simp add: worker_run.simps)

lemma parked_Element_eq:
  "parked_Element =
     \<lparr>thread = \<lparr>pc = InCondWait, cancelRequested = False\<rparr>,
      state = Pause,
      inputs = \<lparr>pins = [3, 4]\<rparr>,
      outputs = \<lparr>pins = [5]\<rparr>,
      status = Executing,
      waitMutex = False,
      canSleep = True,
      name = ''Element'',
      logEnabled = False,
      trace = [ThreadStart, SignalExecutionState Initializing, CallInitialize,
               SignalExecutionState Executing],
      err = []\<rparr>"
  by (simp add: parked_Element_def new_Element_def AddInputPin_def AddOutputPin_def Add_def
      Execute_def Thread_Start_def Log_def worker_run.simps worker_step_def goto_def
      SetExecutionState_def Initialize_def sleep_gate_def)

lemma playing_Element_eq:
  "playing_Element =
     \<lparr>thread = \<lparr>pc = InCondWait, cancelRequested = False\<rparr>,
      state = Play,
      inputs = \<lparr>pins = [3, 4]\<rparr>,
      outputs = \<lparr>pins = [5]\<rparr>,
      status = Executing,
      waitMutex = False,
      canSleep = True,
      name = ''Element'',
      logEnabled = False,
      trace = [ThreadStart, SignalExecutionState Initializing, CallInitialize,
               SignalExecutionState Executing, CallChangeState Pause Play, CallWake,
               CallDoWork],
      err = []\<rparr>"
  by (simp add: playing_Element_def parked_Element_eq SetState_def ChangeState_def Wake_def
      Log_def DoWork_def worker_run.simps worker_step_def goto_def sleep_gate_def)

subsection \<open>PinCollection::Item\<close>

lemma Item_in_range:
  "0 \<le> sint index \<Longrightarrow> nat (sint index) < length (pins c) \<Longrightarrow>
   Item c index = ItemReturned (pins c ! nat (sint index))"
  by (simp add: Item_def)

lemma Item_negative: "sint index < 0 \<Longrightarrow> Item c index = ItemThrew ArgumentOutOfRangeException"
  by (simp add: Item_def)

lemma Item_beyond:
  "int (length (pins c)) < sint index \<Longrightarrow> Item c index = ItemThrew ArgumentOutOfRangeException"
  by (simp add: Item_def)

lemma Item_at_count:
  "sint index = int (length (pins c)) \<Longrightarrow> Item c index = ItemReadPastEnd"
  by (simp add: Item_def)

lemma pins_Add: "pins (Add v c) = pins c @ [v]"
  by (simp add: Add_def)

text \<open>
  C1. The claim: in a collection of \<open>k\<close> pins \<^verbatim>\<open>Item(i)\<close> returns the \<open>i\<close>-th added handle
  for \<open>0 \<le> i < k\<close> and fails with an out-of-range error for every \<open>index < 0\<close> and every
  \<open>index \<ge> k\<close>, in particular for \<^verbatim>\<open>Item(k)\<close>. The guard of the source is
  \<^verbatim>\<open>index > pins.size()\<close>, so the index \<open>k\<close> itself is let through: in a collection of
  two pins \<^verbatim>\<open>Item(Count())\<close>, that is \<^verbatim>\<open>Item(2)\<close>, throws nothing and reads past the last
  element. (The other parts of the claim hold: \<open>Item_in_range\<close>, \<open>Item_negative\<close>,
  \<open>Item_beyond\<close>.)
\<close>

theorem C1_Item_at_Count_not_rejected:
  "Count (Add 20 (Add (10::nat) \<lparr>pins = []\<rparr>)) = 2
   \<and> Item (Add 20 (Add (10::nat) \<lparr>pins = []\<rparr>)) 2 = ItemReadPastEnd
   \<and> Item (Add 20 (Add (10::nat) \<lparr>pins = []\<rparr>)) 2 \<noteq> ItemThrew ArgumentOutOfRangeException"
  by (simp add: Item_def Add_def Count_def)

subsection \<open>Execute\<close>




text \<open>
  In the window between the return of a first \<^verbatim>\<open>Execute\<close> and the worker's first
  statement the status test plays no part: a second \<^verbatim>\<open>Execute\<close> ends as the start of
  the worker ends, whatever that is.
\<close>

lemma second_Execute_in_window:
  "status e = WaitingForExecute \<Longrightarrow>
   fst (Execute sr (snd (Execute None e))) = (case sr of None \<Rightarrow> Returned | Some x \<Rightarrow> Threw x)"
  by (simp add: Execute_def Log_def split: option.splits)












subsection \<open>Terminate\<close>

lemma Terminate_fails:
  "status e \<noteq> Executing \<Longrightarrow> Terminate e = (Threw (InvalidOperationException []), e)"
  by (simp add: Terminate_def)

lemma Terminate_not_Threw: "status e = Executing \<Longrightarrow> fst (Terminate e) \<noteq> Threw x"
  by (simp add: Terminate_def Thread_Join_def Let_def split: prod.splits outcome.splits)

text \<open>
  C3. \<^verbatim>\<open>Terminate()\<close> fails with an invalid-operation error exactly when the status is
  not \<^verbatim>\<open>Executing\<close> at the time of the call; a failed \<^verbatim>\<open>Terminate\<close> leaves every field of
  the element as it was; and on a newly constructed element, whose status is
  \<^verbatim>\<open>WaitingForExecute\<close>, \<^verbatim>\<open>Terminate\<close> fails in this way.
\<close>

theorem C3_Terminate_precondition:
  "(fst (Terminate e) = Threw (InvalidOperationException [])) = (status e \<noteq> Executing)
   \<and> (\<forall>x. fst (Terminate e) = Threw x \<longrightarrow> snd (Terminate e) = e)
   \<and> Status new_Element = WaitingForExecute
   \<and> Terminate new_Element = (Threw (InvalidOperationException []), new_Element)"
proof (intro conjI allI impI)
  show "(fst (Terminate e) = Threw (InvalidOperationException [])) = (status e \<noteq> Executing)"
    using Terminate_fails[of e] Terminate_not_Threw[of e] by auto
next
  fix x assume "fst (Terminate e) = Threw x"
  then have "status e \<noteq> Executing" using Terminate_not_Threw[of e x] by blast
  then show "snd (Terminate e) = e" by (simp add: Terminate_fails)
next
  show "Status new_Element = WaitingForExecute"
    by (simp add: Status_def new_Element_def)
next
  show "Terminate new_Element = (Threw (InvalidOperationException []), new_Element)"
    by (rule Terminate_fails) (simp add: new_Element_def)
qed

text \<open>
  C3 on an element whose worker has been started and has taken one step (status
  \<^verbatim>\<open>Initializing\<close>): \<^verbatim>\<open>Terminate\<close> throws and the element is as before.
\<close>

theorem C3_Terminate_precondition_witness:
  "status (the (worker_steps (Suc 0) (snd (Execute None new_Element)))) = Initializing
   \<and> fst (Terminate (the (worker_steps (Suc 0) (snd (Execute None new_Element)))))
       = Threw (InvalidOperationException [])
   \<and> snd (Terminate (the (worker_steps (Suc 0) (snd (Execute None new_Element)))))
       = the (worker_steps (Suc 0) (snd (Execute None new_Element)))"
proof -
  let ?e = "the (worker_steps (Suc 0) (snd (Execute None new_Element)))"
  have h: "status ?e = Initializing"
    by (simp add: Execute_def new_Element_def worker_step_def Thread_Start_def Log_def
        goto_def Initialize_def SetExecutionState_def)
  then have n: "status ?e \<noteq> Executing" by simp
  from C3_Terminate_precondition[of ?e] n
  have f: "fst (Terminate ?e) = Threw (InvalidOperationException [])" by blast
  with C3_Terminate_precondition[of ?e] have "snd (Terminate ?e) = ?e" by blast
  with h f show ?thesis by blast
qed











lemma Terminate_parked:
  assumes "status e = Executing" "pc (thread e) = InCondWait"
  shows "fst (Terminate e) = Returned \<and> status (snd (Terminate e)) = Terminating
     \<and> pc (thread (snd (Terminate e))) = Cancelled"
proof -
  define e3 where "e3 = (Flush (SetExecutionState Terminating e))
     \<lparr>thread := Thread_Cancel (thread (Flush (SetExecutionState Terminating e))),
      trace := trace (Flush (SetExecutionState Terminating e)) @ [ThreadCancel, ThreadJoin]\<rparr>"
  have f: "pc (thread e3) = InCondWait" "cancelRequested (thread e3)" "status e3 = Terminating"
    using assms by (simp_all add: e3_def Flush_def SetExecutionState_def Log_def Thread_Cancel_def)
  have s1: "worker_step e3 = Some (goto Cancelled e3)"
    using f by (simp add: worker_step_def)
  have s2: "worker_step (goto Cancelled e3) = None"
    by (simp add: worker_step_def goto_def)
  have r: "worker_run e3 = goto Cancelled e3"
    using worker_run_step[OF s1] worker_run_stuck[OF s2] by simp
  have t: "Terminate e = (Returned, Log ''Element (%s) Terminate.'' (goto Cancelled e3))"
    using assms r
    by (simp add: Terminate_def Let_def Thread_Join_def e3_def goto_def)
  show ?thesis using f by (simp add: t Log_def goto_def)
qed

text \<open>
  Without the forced stop a worker parked on a closed gate does not move at all: a
  wake-up that finds \<^verbatim>\<open>canSleep\<close> set returns into the wait.
\<close>

lemma parked_worker_cannot_move:
  "pc (thread e) = InCondWait \<Longrightarrow> canSleep e \<Longrightarrow> \<not> cancelRequested (thread e) \<Longrightarrow>
   worker_step e = None"
  by (simp add: worker_step_def)

text \<open>
  When the gate is open at the time of the call (a wake is pending) the worker
  passes it, leaves the loop and runs line 191. (The forced stop of the model takes
  effect in the wait of the sleep gate only.)
\<close>

lemma Terminate_open_gate:
  assumes "status e = Executing" "pc (thread e) = AtSleepGate" "\<not> canSleep e" "\<not> waitMutex e"
  shows "fst (Terminate e) = Returned \<and> status (snd (Terminate e)) = WaitingForExecute
     \<and> pc (thread (snd (Terminate e))) = Finished"
proof -
  define e3 where "e3 = (Flush (SetExecutionState Terminating e))
     \<lparr>thread := Thread_Cancel (thread (Flush (SetExecutionState Terminating e))),
      trace := trace (Flush (SetExecutionState Terminating e)) @ [ThreadCancel, ThreadJoin]\<rparr>"
  define b1 where "b1 = goto AtLoopCheck
     (Log ''Element (%s) InternalWorkThread woke.'' (e3\<lparr>canSleep := True\<rparr>))"
  define b2 where "b2 = goto AtExit b1"
  define b3 where "b3 = goto Finished
     (Log ''Element (%s) InternalWorkThread exited.'' (SetExecutionState WaitingForExecute b2))"
  have f3: "pc (thread e3) = AtSleepGate" "status e3 = Terminating" "\<not> canSleep e3"
    "\<not> waitMutex e3"
    using assms by (simp_all add: e3_def Flush_def SetExecutionState_def Log_def Thread_Cancel_def)
  have f1: "pc (thread b1) = AtLoopCheck" "status b1 = Terminating"
    using f3 by (simp_all add: b1_def goto_def Log_def)
  have f2: "pc (thread b2) = AtExit"
    by (simp add: b2_def goto_def)
  have f4: "pc (thread b3) = Finished" "status b3 = WaitingForExecute"
    by (simp_all add: b3_def goto_def Log_def SetExecutionState_def)
  have s1: "worker_step e3 = Some b1"
    using f3 by (simp add: worker_step_def sleep_gate_def b1_def)
  have s2: "worker_step b1 = Some b2"
    using f1 by (simp add: worker_step_def b2_def)
  have s3: "worker_step b2 = Some b3"
    using f2 by (simp add: worker_step_def b3_def)
  have s4: "worker_step b3 = None"
    using f4 by (simp add: worker_step_def)
  have r: "worker_run e3 = b3"
    using worker_run_step[OF s1] worker_run_step[OF s2] worker_run_step[OF s3]
      worker_run_stuck[OF s4] by simp
  have t: "Terminate e = (Returned, Log ''Element (%s) Terminate.'' b3)"
    using assms(1) r f4(1)
    by (simp add: Terminate_def Let_def Thread_Join_def e3_def)
  show ?thesis using f4 by (simp add: t Log_def)
qed

text \<open>
  The same happens to a worker that is in the loop body (running \<^verbatim>\<open>DoWork\<close>) or about
  to lock the mutex when \<^verbatim>\<open>Terminate\<close> is called, if the gate is closed: it goes on to
  the wait and is stopped there.
\<close>

lemma Terminate_before_closed_gate:
  assumes "status e = Executing"
    and "pc (thread e) = AtLoopBody \<or> pc (thread e) = AtSleepGate"
    and "canSleep e" "\<not> waitMutex e"
  shows "fst (Terminate e) = Returned \<and> status (snd (Terminate e)) = Terminating
     \<and> pc (thread (snd (Terminate e))) = Cancelled"
proof -
  define e3 where "e3 = (Flush (SetExecutionState Terminating e))
     \<lparr>thread := Thread_Cancel (thread (Flush (SetExecutionState Terminating e))),
      trace := trace (Flush (SetExecutionState Terminating e)) @ [ThreadCancel, ThreadJoin]\<rparr>"
  define c1 where "c1 = goto AtSleepGate
     (Log ''Element (%s) InternalWorkThread sleeping.''
        (if state e3 = Play then DoWork e3 else e3))"
  have f3: "pc (thread e3) = pc (thread e)" "cancelRequested (thread e3)"
    "status e3 = Terminating" "canSleep e3" "\<not> waitMutex e3"
    using assms by (simp_all add: e3_def Flush_def SetExecutionState_def Log_def Thread_Cancel_def)
  have f1: "pc (thread c1) = AtSleepGate" "cancelRequested (thread c1)"
    "status c1 = Terminating" "canSleep c1" "\<not> waitMutex c1"
    using f3 by (simp_all add: c1_def goto_def Log_def DoWork_def)
  have gate: "worker_run x = goto Cancelled x \<and> status (goto Cancelled x) = Terminating
      \<and> pc (thread (goto Cancelled x)) = Cancelled"
    if "pc (thread x) = AtSleepGate" "cancelRequested (thread x)" "status x = Terminating"
      "canSleep x" "\<not> waitMutex x" for x
  proof -
    have s1: "worker_step x = Some (goto Cancelled x)"
      using that by (simp add: worker_step_def sleep_gate_def)
    have s2: "worker_step (goto Cancelled x) = None"
      by (simp add: worker_step_def goto_def)
    show ?thesis
      using worker_run_step[OF s1] worker_run_stuck[OF s2] that by (simp add: goto_def)
  qed
  have r: "status (worker_run e3) = Terminating \<and> pc (thread (worker_run e3)) = Cancelled"
  proof (cases "pc (thread e) = AtLoopBody")
    case True
    then have "worker_step e3 = Some c1"
      using f3 by (simp add: worker_step_def c1_def)
    then have "worker_run e3 = worker_run c1" by (rule worker_run_step)
    with gate[OF f1] show ?thesis by simp
  next
    case False
    with assms(2) f3 have "pc (thread e3) = AtSleepGate" by simp
    from gate[OF this f3(2-5)] show ?thesis by simp
  qed
  have "Terminate e = (Returned, Log ''Element (%s) Terminate.'' (worker_run e3))"
    using assms(1) r
    by (simp add: Terminate_def Let_def Thread_Join_def e3_def)
  with r show ?thesis by (simp add: Log_def)
qed

text \<open>
  C5. The claim: after a successful \<^verbatim>\<open>Terminate()\<close> has returned, \<^verbatim>\<open>Status()\<close> is
  \<^verbatim>\<open>WaitingForExecute\<close>, wherever in its loop the worker was, running \<^verbatim>\<open>DoWork\<close> or parked
  on the sleep gate. The status is reset by the worker itself, in line 191 after the
  loop. \<^verbatim>\<open>Terminate\<close> does not open the gate (it does not call \<^verbatim>\<open>Wake\<close>), so a worker
  parked in the wait never gets to the loop test again: it is stopped by force inside
  the wait. On the parked element \<^verbatim>\<open>Terminate()\<close> returns and \<^verbatim>\<open>Status()\<close> is
  \<^verbatim>\<open>Terminating\<close>.
\<close>

theorem C5_Terminate_parked_worker:
  "Status parked_Element = Executing
   \<and> pc (thread parked_Element) = InCondWait
   \<and> fst (Terminate parked_Element) = Returned
   \<and> Status (snd (Terminate parked_Element)) = Terminating
   \<and> Status (snd (Terminate parked_Element)) \<noteq> WaitingForExecute"
  using Terminate_parked[of parked_Element]
  by (simp add: parked_Element_eq Status_def)

subsection \<open>Wake\<close>

lemma Wake_blocked:
  "waitMutex e \<Longrightarrow> Wake rc e = (NeverReturns, e\<lparr>trace := trace e @ [CallWake]\<rparr>)"
  by (simp add: Wake_def Let_def)

lemma Wake_succeeds:
  "\<not> waitMutex e \<Longrightarrow>
   fst (Wake 0 e) = Returned
   \<and> thread (snd (Wake 0 e)) = thread e
   \<and> state (snd (Wake 0 e)) = state e
   \<and> status (snd (Wake 0 e)) = status e
   \<and> \<not> waitMutex (snd (Wake 0 e))
   \<and> \<not> canSleep (snd (Wake 0 e))
   \<and> trace (snd (Wake 0 e)) = trace e @ [CallWake]"
  by (simp add: Wake_def Let_def Log_def)

lemma Wake_times_Suc:
  "\<not> waitMutex e \<Longrightarrow> Wake_times (Suc n) e = Wake_times n (snd (Wake 0 e))"
  using Wake_succeeds[of e] by (cases "Wake 0 e") (simp split: outcome.splits)

lemma Wake_times_succeeds:
  "\<not> waitMutex e \<Longrightarrow>
   fst (Wake_times n e) = Returned
   \<and> thread (snd (Wake_times n e)) = thread e
   \<and> state (snd (Wake_times n e)) = state e
   \<and> status (snd (Wake_times n e)) = status e
   \<and> \<not> waitMutex (snd (Wake_times n e))
   \<and> canSleep (snd (Wake_times n e)) = (n = 0 \<and> canSleep e)
   \<and> trace (snd (Wake_times n e)) = trace e @ replicate n CallWake"
proof (induction n arbitrary: e)
  case 0
  then show ?case by simp
next
  case (Suc n)
  note w = Wake_succeeds[OF Suc.prems]
  from w have m: "\<not> waitMutex (snd (Wake 0 e))" by simp
  have eq: "Wake_times (Suc n) e = Wake_times n (snd (Wake 0 e))"
    by (rule Wake_times_Suc[OF Suc.prems])
  show ?case
    unfolding eq using Suc.IH[OF m] w by simp
qed

lemma Wake_times_gate:
  "0 < n \<Longrightarrow>
   canSleep (snd (Wake_times n e)) = canSleep (snd (Wake 0 e))
   \<and> waitMutex (snd (Wake_times n e)) = waitMutex (snd (Wake 0 e))"
proof (cases "waitMutex e")
  case True
  assume "0 < n"
  then obtain m where "n = Suc m" by (cases n) auto
  with True show ?thesis by (simp add: Wake_blocked)
next
  case False
  assume "0 < n"
  with Wake_times_succeeds[OF False, of n] Wake_succeeds[OF False] show ?thesis by simp
qed

lemma count_list_replicate_other: "a \<noteq> b \<Longrightarrow> count_list (replicate n a) b = 0"
  by (induction n) simp_all

text \<open>One pass through an open gate, and the worker parks at the next one.\<close>

lemma open_gate_one_pass:
  assumes g: "pc (thread e) = AtSleepGate \<or> pc (thread e) = InCondWait"
    and s: "status e = Executing"
    and m: "\<not> waitMutex e"
    and c: "\<not> cancelRequested (thread e)"
    and o: "\<not> canSleep e"
  shows "pc (thread (worker_run e)) = InCondWait
     \<and> canSleep (worker_run e)
     \<and> status (worker_run e) = Executing
     \<and> trace (worker_run e) = trace e @ (if state e = Play then [CallDoWork] else [])"
proof -
  define a1 where "a1 = goto AtLoopCheck
     (Log ''Element (%s) InternalWorkThread woke.'' (e\<lparr>canSleep := True\<rparr>))"
  define a2 where "a2 = goto AtLoopBody a1"
  define a3 where "a3 = goto AtSleepGate
     (Log ''Element (%s) InternalWorkThread sleeping.''
        (if state a2 = Play then DoWork a2 else a2))"
  define a4 where "a4 = goto InCondWait a3"
  have f1: "pc (thread a1) = AtLoopCheck" "status a1 = Executing" "canSleep a1"
    "\<not> waitMutex a1" "\<not> cancelRequested (thread a1)" "trace a1 = trace e" "state a1 = state e"
    using s m c by (simp_all add: a1_def goto_def Log_def)
  have f2: "pc (thread a2) = AtLoopBody" "status a2 = Executing" "canSleep a2"
    "\<not> waitMutex a2" "\<not> cancelRequested (thread a2)" "trace a2 = trace e" "state a2 = state e"
    using f1 by (simp_all add: a2_def goto_def)
  have f3: "pc (thread a3) = AtSleepGate" "status a3 = Executing" "canSleep a3"
    "\<not> waitMutex a3" "\<not> cancelRequested (thread a3)"
    "trace a3 = trace e @ (if state e = Play then [CallDoWork] else [])"
    using f2 by (simp_all add: a3_def goto_def Log_def DoWork_def)
  have f4: "pc (thread a4) = InCondWait" "status a4 = Executing" "canSleep a4"
    "\<not> waitMutex a4" "\<not> cancelRequested (thread a4)"
    "trace a4 = trace e @ (if state e = Play then [CallDoWork] else [])"
    using f3 by (simp_all add: a4_def goto_def)
  have s1: "worker_step e = Some a1"
    using g m c o by (auto simp: worker_step_def sleep_gate_def a1_def)
  have s2: "worker_step a1 = Some a2"
    using f1 by (simp add: worker_step_def a2_def)
  have s3: "worker_step a2 = Some a3"
    using f2 by (simp add: worker_step_def a3_def)
  have s4: "worker_step a3 = Some a4"
    using f3 by (simp add: worker_step_def sleep_gate_def a4_def)
  have s5: "worker_step a4 = None"
    using f4 by (simp add: worker_step_def)
  have "worker_run e = a4"
    using worker_run_step[OF s1] worker_run_step[OF s2] worker_run_step[OF s3]
      worker_run_step[OF s4] worker_run_stuck[OF s5] by simp
  with f4 show ?thesis by simp
qed

text \<open>
  C6. \<^verbatim>\<open>Wake()\<close> is level-triggered and coalescing. For every \<open>n \<ge> 1\<close>, \<open>n\<close> calls of \<^verbatim>\<open>Wake\<close>
  leave the gate (\<^verbatim>\<open>canSleep\<close> and its mutex) as one call does, and when the mutex is
  free they all return with the gate cleared. If the calls are made while the worker
  of an executing element is about to check the gate or is parked on it, then the
  worker, left to run, invokes \<^verbatim>\<open>DoWork\<close> as often as after a single call: once when
  the play state is \<^verbatim>\<open>Play\<close>, not at all otherwise; it then parks on the gate, which is
  set again. So at most one sleep is suppressed and at most one further work
  iteration happens, not \<open>n\<close>.
\<close>

theorem C6_Wake_coalesces:
  "(0 < n \<longrightarrow>
      canSleep (snd (Wake_times n e)) = canSleep (snd (Wake 0 e))
      \<and> waitMutex (snd (Wake_times n e)) = waitMutex (snd (Wake 0 e)))
   \<and> (0 < n \<and> \<not> waitMutex e \<longrightarrow>
        fst (Wake_times n e) = Returned \<and> \<not> canSleep (snd (Wake_times n e)))
   \<and> (0 < n \<and> \<not> waitMutex e \<and> status e = Executing \<and> \<not> cancelRequested (thread e)
        \<and> (pc (thread e) = AtSleepGate \<or> pc (thread e) = InCondWait) \<longrightarrow>
        count_list (trace (worker_run (snd (Wake_times n e)))) CallDoWork
          = count_list (trace (worker_run (snd (Wake 0 e)))) CallDoWork
        \<and> count_list (trace (worker_run (snd (Wake_times n e)))) CallDoWork
          = count_list (trace e) CallDoWork + (if state e = Play then 1 else 0)
        \<and> pc (thread (worker_run (snd (Wake_times n e)))) = InCondWait
        \<and> canSleep (worker_run (snd (Wake_times n e))))"
proof (intro conjI impI)
  assume "0 < n"
  then show "canSleep (snd (Wake_times n e)) = canSleep (snd (Wake 0 e))"
    and "waitMutex (snd (Wake_times n e)) = waitMutex (snd (Wake 0 e))"
    using Wake_times_gate[of n e] by simp_all
next
  assume a: "0 < n \<and> \<not> waitMutex e"
  then show "fst (Wake_times n e) = Returned" and "\<not> canSleep (snd (Wake_times n e))"
    using Wake_times_succeeds[of e n] by simp_all
next
  assume a: "0 < n \<and> \<not> waitMutex e \<and> status e = Executing \<and> \<not> cancelRequested (thread e)
        \<and> (pc (thread e) = AtSleepGate \<or> pc (thread e) = InCondWait)"
  then have m: "\<not> waitMutex e" by simp
  note wn = Wake_times_succeeds[OF m, of n]
  note w1 = Wake_succeeds[OF m]
  have pn: "pc (thread (worker_run (snd (Wake_times n e)))) = InCondWait
     \<and> canSleep (worker_run (snd (Wake_times n e)))
     \<and> status (worker_run (snd (Wake_times n e))) = Executing
     \<and> trace (worker_run (snd (Wake_times n e)))
         = trace (snd (Wake_times n e))
             @ (if state (snd (Wake_times n e)) = Play then [CallDoWork] else [])"
    using a wn by (intro open_gate_one_pass) simp_all
  have p1: "pc (thread (worker_run (snd (Wake 0 e)))) = InCondWait
     \<and> canSleep (worker_run (snd (Wake 0 e)))
     \<and> status (worker_run (snd (Wake 0 e))) = Executing
     \<and> trace (worker_run (snd (Wake 0 e)))
         = trace (snd (Wake 0 e)) @ (if state (snd (Wake 0 e)) = Play then [CallDoWork] else [])"
    using a w1 by (intro open_gate_one_pass) simp_all
  have cn: "count_list (trace (worker_run (snd (Wake_times n e)))) CallDoWork
          = count_list (trace e) CallDoWork + (if state e = Play then 1 else 0)"
    using pn wn by (simp add: count_list_replicate_other)
  have c1: "count_list (trace (worker_run (snd (Wake 0 e)))) CallDoWork
          = count_list (trace e) CallDoWork + (if state e = Play then 1 else 0)"
    using p1 w1 by simp
  show "count_list (trace (worker_run (snd (Wake_times n e)))) CallDoWork
          = count_list (trace (worker_run (snd (Wake 0 e)))) CallDoWork"
    using cn c1 by simp
  show "count_list (trace (worker_run (snd (Wake_times n e)))) CallDoWork
          = count_list (trace e) CallDoWork + (if state e = Play then 1 else 0)"
    by (rule cn)
  show "pc (thread (worker_run (snd (Wake_times n e)))) = InCondWait"
    and "canSleep (worker_run (snd (Wake_times n e)))"
    using pn by simp_all
qed

text \<open>
  C6 on the playing element, whose worker is parked after one \<^verbatim>\<open>DoWork\<close>: three calls
  of \<^verbatim>\<open>Wake\<close> clear the gate as one call does, and the worker then invokes \<^verbatim>\<open>DoWork\<close> one
  more time (twice in all), as after one call, before it parks again.
\<close>

theorem C6_Wake_coalesces_witness:
  "\<not> waitMutex playing_Element
   \<and> status playing_Element = Executing
   \<and> pc (thread playing_Element) = InCondWait
   \<and> state playing_Element = Play
   \<and> count_list (trace playing_Element) CallDoWork = 1
   \<and> fst (Wake_times 3 playing_Element) = Returned
   \<and> canSleep (snd (Wake_times 3 playing_Element)) = canSleep (snd (Wake 0 playing_Element))
   \<and> \<not> canSleep (snd (Wake_times 3 playing_Element))
   \<and> count_list (trace (worker_run (snd (Wake_times 3 playing_Element)))) CallDoWork
       = count_list (trace (worker_run (snd (Wake 0 playing_Element)))) CallDoWork
   \<and> count_list (trace (worker_run (snd (Wake_times 3 playing_Element)))) CallDoWork = 2
   \<and> canSleep (worker_run (snd (Wake_times 3 playing_Element)))"
proof -
  have h: "(0::nat) < 3" "\<not> waitMutex playing_Element" "status playing_Element = Executing"
    "\<not> cancelRequested (thread playing_Element)" "pc (thread playing_Element) = InCondWait"
    "state playing_Element = Play" "count_list (trace playing_Element) CallDoWork = 1"
    by (simp_all add: playing_Element_eq)
  from C6_Wake_coalesces[of 3 playing_Element] h Wake_succeeds[of playing_Element]
  show ?thesis by simp
qed

text \<open>
  C10. When \<^verbatim>\<open>Wake()\<close> fails with the synchronization error, the sleep gate has been
  cleared before: a broadcast that reports failure on a free mutex makes \<^verbatim>\<open>Wake\<close> throw,
  and whenever \<^verbatim>\<open>Wake\<close> throws, \<^verbatim>\<open>canSleep\<close> is false afterwards. The failure does not
  leave the element as it was.
\<close>

theorem C10_Wake_failure_clears_gate:
  "(rc \<noteq> 0 \<and> \<not> waitMutex e \<longrightarrow>
      fst (Wake rc e) = Threw (Exception ''Element::Wake - pthread_cond_broadcast failed.''))
   \<and> (\<forall>x. fst (Wake rc e) = Threw x \<longrightarrow>
        \<not> canSleep (snd (Wake rc e))
        \<and> x = Exception ''Element::Wake - pthread_cond_broadcast failed.'')"
  by (simp add: Wake_def Let_def Log_def)

text \<open>
  C10 on a new element, whose gate is set: a failing broadcast makes \<^verbatim>\<open>Wake\<close> throw,
  and the gate is cleared.
\<close>

theorem C10_Wake_failure_clears_gate_witness:
  "canSleep new_Element
   \<and> fst (Wake 1 new_Element)
       = Threw (Exception ''Element::Wake - pthread_cond_broadcast failed.'')
   \<and> \<not> canSleep (snd (Wake 1 new_Element))"
proof -
  have m: "(1::int) \<noteq> 0 \<and> \<not> waitMutex new_Element" by (simp add: new_Element_def)
  have c: "canSleep new_Element" by (simp add: new_Element_def)
  from C10_Wake_failure_clears_gate[of 1 new_Element] m c show ?thesis by blast
qed

subsection \<open>SetState and ChangeState\<close>

text \<open>
  C7. A call \<^verbatim>\<open>SetState(newState)\<close> with \<open>newState\<close> different from the play state
  sets the play state to \<open>newState\<close>, calls \<^verbatim>\<open>ChangeState\<close> with the old and the new value
  and, from there, \<^verbatim>\<open>Wake()\<close>, and nothing else is called; the status, the name and the
  two pin collections are as before. This holds however the call ends (the \<^verbatim>\<open>Wake\<close>
  inside may throw or block).
\<close>

theorem C7_SetState_changes_only_playState:
  assumes "v \<noteq> state e"
  shows "State (snd (SetState rc v e)) = v
     \<and> trace (snd (SetState rc v e)) = trace e @ [CallChangeState (state e) v, CallWake]
     \<and> status (snd (SetState rc v e)) = status e
     \<and> name (snd (SetState rc v e)) = name e
     \<and> inputs (snd (SetState rc v e)) = inputs e
     \<and> outputs (snd (SetState rc v e)) = outputs e"
  using assms
  by (simp add: SetState_def ChangeState_def Wake_def Let_def Log_def State_def
      split: prod.splits outcome.splits)

text \<open>
  C7 on the parked element, which is paused: \<^verbatim>\<open>SetState(Play)\<close> returns, the play state
  is \<^verbatim>\<open>Play\<close>, the status still \<^verbatim>\<open>Executing\<close>, the pins are the same.
\<close>

theorem C7_SetState_changes_only_playState_witness:
  "state parked_Element = Pause
   \<and> fst (SetState 0 Play parked_Element) = Returned
   \<and> State (snd (SetState 0 Play parked_Element)) = Play
   \<and> trace (snd (SetState 0 Play parked_Element))
       = trace parked_Element @ [CallChangeState Pause Play, CallWake]
   \<and> status (snd (SetState 0 Play parked_Element)) = Executing
   \<and> inputs (snd (SetState 0 Play parked_Element)) = \<lparr>pins = [3, 4]\<rparr>
   \<and> outputs (snd (SetState 0 Play parked_Element)) = \<lparr>pins = [5]\<rparr>"
proof -
  have h: "Play \<noteq> state parked_Element" "state parked_Element = Pause"
    "status parked_Element = Executing" "inputs parked_Element = \<lparr>pins = [3, 4]\<rparr>"
    "outputs parked_Element = \<lparr>pins = [5]\<rparr>"
    by (simp_all add: parked_Element_eq)
  have r: "fst (SetState 0 Play parked_Element) = Returned"
    by (simp add: parked_Element_eq SetState_def ChangeState_def Wake_def Log_def)
  from C7_SetState_changes_only_playState[OF h(1), of 0] h r show ?thesis by simp
qed

text \<open>
  C9. \<^verbatim>\<open>SetState(v)\<close> with \<open>v\<close> the current play state does nothing: the call returns
  and the element, its trace of calls included, is as before; neither \<^verbatim>\<open>ChangeState\<close>
  nor \<^verbatim>\<open>Wake\<close> has been called.
\<close>

theorem C9_SetState_same_value: "SetState rc (State e) e = (Returned, e)"
  by (simp add: SetState_def State_def)

subsection \<open>The loop of the worker\<close>

lemma worker_step_DoWork:
  assumes "worker_step e = Some e'"
  shows "count_list (trace e') CallDoWork =
           count_list (trace e) CallDoWork
             + (if pc (thread e) = AtLoopBody \<and> state e = Play then 1 else 0)
     \<and> (pc (thread e') = AtLoopBody \<longrightarrow> pc (thread e) = AtLoopCheck \<and> status e = Executing)
     \<and> (pc (thread e) = AtLoopBody \<longrightarrow> pc (thread e') = AtSleepGate)
     \<and> state e' = state e"
  using assms
  by (auto simp: worker_step_def goto_def Log_def SetExecutionState_def DoWork_def
      Initialize_def sleep_gate_def split: worker_pc.splits if_splits)

lemma paused_steps_no_DoWork:
  "state e = Pause \<Longrightarrow> worker_steps k e = Some e' \<Longrightarrow>
   state e' = Pause \<and> count_list (trace e') CallDoWork = count_list (trace e) CallDoWork"
proof (induction k arbitrary: e)
  case 0
  then show ?case by simp
next
  case (Suc k)
  from Suc.prems(2) obtain e1 where s1: "worker_step e = Some e1"
    and sk: "worker_steps k e1 = Some e'"
    by (auto split: option.splits)
  from worker_step_DoWork[OF s1] Suc.prems(1)
  have "state e1 = Pause" "count_list (trace e1) CallDoWork = count_list (trace e) CallDoWork"
    by simp_all
  with Suc.IH[OF _ sk] show ?case by simp
qed

lemma in_loop_step:
  "in_loop e \<Longrightarrow> \<not> cancelRequested (thread e) \<Longrightarrow> worker_step e = Some e' \<Longrightarrow>
   in_loop e' \<and> \<not> cancelRequested (thread e')"
  by (auto simp: in_loop_def worker_step_def goto_def Log_def DoWork_def sleep_gate_def
      split: worker_pc.splits if_splits)

lemma in_loop_steps:
  "in_loop e \<Longrightarrow> \<not> cancelRequested (thread e) \<Longrightarrow> worker_steps k e = Some e' \<Longrightarrow>
   in_loop e'"
proof (induction k arbitrary: e)
  case 0
  then show ?case by simp
next
  case (Suc k)
  from Suc.prems(3) obtain e1 where s1: "worker_step e = Some e1"
    and sk: "worker_steps k e1 = Some e'"
    by (auto split: option.splits)
  from in_loop_step[OF Suc.prems(1,2) s1] Suc.IH[OF _ _ sk] show ?case by blast
qed

lemma in_loop_moves:
  "pc (thread e) = AtLoopCheck \<or> pc (thread e) = AtLoopBody \<Longrightarrow> worker_step e \<noteq> None"
  by (auto simp: worker_step_def)

text \<open>
  C8. In the loop of the worker \<^verbatim>\<open>DoWork()\<close> is invoked only by the step that tests the
  play state (line 168) and finds \<^verbatim>\<open>Play\<close>, and once by that step; that step is
  reached only from the loop test of line 166 having found \<^verbatim>\<open>Executing\<close>, and it leads
  to the sleep gate, so there is at most one invocation in an iteration. While the
  play state is \<^verbatim>\<open>Pause\<close>, no number of steps of the worker invokes \<^verbatim>\<open>DoWork\<close>; the
  worker stays in the loop with the status \<^verbatim>\<open>Executing\<close>, and it is not held up at the
  loop test or at the test of the play state.
\<close>

theorem C8_DoWork_only_in_Play:
  "(worker_step e = Some e' \<longrightarrow>
      count_list (trace e') CallDoWork =
        count_list (trace e) CallDoWork
          + (if pc (thread e) = AtLoopBody \<and> state e = Play then 1 else 0)
      \<and> (pc (thread e') = AtLoopBody \<longrightarrow> pc (thread e) = AtLoopCheck \<and> status e = Executing)
      \<and> (pc (thread e) = AtLoopBody \<longrightarrow> pc (thread e') = AtSleepGate))
   \<and> (state e = Pause \<and> worker_steps k e = Some e'' \<longrightarrow>
        state e'' = Pause
        \<and> count_list (trace e'') CallDoWork = count_list (trace e) CallDoWork)
   \<and> (in_loop e \<and> \<not> cancelRequested (thread e) \<and> worker_steps k e = Some e'' \<longrightarrow>
        in_loop e'' \<and> status e'' = Executing)
   \<and> (pc (thread e) = AtLoopCheck \<or> pc (thread e) = AtLoopBody \<longrightarrow> worker_step e \<noteq> None)"
proof (intro conjI impI)
  assume s: "worker_step e = Some e'"
  show "count_list (trace e') CallDoWork =
        count_list (trace e) CallDoWork
          + (if pc (thread e) = AtLoopBody \<and> state e = Play then 1 else 0)"
    using worker_step_DoWork[OF s] by blast
  show "pc (thread e) = AtLoopCheck" if "pc (thread e') = AtLoopBody"
    using worker_step_DoWork[OF s] that by blast
  show "status e = Executing" if "pc (thread e') = AtLoopBody"
    using worker_step_DoWork[OF s] that by blast
  show "pc (thread e') = AtSleepGate" if "pc (thread e) = AtLoopBody"
    using worker_step_DoWork[OF s] that by blast
next
  assume a: "state e = Pause \<and> worker_steps k e = Some e''"
  then show "state e'' = Pause"
    and "count_list (trace e'') CallDoWork = count_list (trace e) CallDoWork"
    using paused_steps_no_DoWork[of e k e''] by simp_all
next
  assume a: "in_loop e \<and> \<not> cancelRequested (thread e) \<and> worker_steps k e = Some e''"
  then show "in_loop e''" using in_loop_steps[of e k e''] by simp
  then show "status e'' = Executing" by (simp add: in_loop_def)
next
  assume "pc (thread e) = AtLoopCheck \<or> pc (thread e) = AtLoopBody"
  then show "worker_step e \<noteq> None" by (rule in_loop_moves)
qed

text \<open>
  C8 on the two reference elements after one \<^verbatim>\<open>Wake()\<close>. Playing: two steps take the
  worker to the test of the play state, and the next step invokes \<^verbatim>\<open>DoWork\<close> once.
  Paused: four steps take the worker once round the loop and back into the wait,
  with no \<^verbatim>\<open>DoWork\<close> and the status \<^verbatim>\<open>Executing\<close>.
\<close>

theorem C8_DoWork_only_in_Play_witness:
  "(\<exists>e e'. worker_steps (Suc (Suc 0)) (snd (Wake 0 playing_Element)) = Some e
        \<and> pc (thread e) = AtLoopBody \<and> state e = Play
        \<and> worker_step e = Some e'
        \<and> count_list (trace e') CallDoWork = count_list (trace e) CallDoWork + 1
        \<and> pc (thread e') = AtSleepGate)
   \<and> (\<exists>e''. worker_steps (Suc (Suc (Suc (Suc 0)))) (snd (Wake 0 parked_Element)) = Some e''
        \<and> state (snd (Wake 0 parked_Element)) = Pause
        \<and> in_loop (snd (Wake 0 parked_Element))
        \<and> pc (thread e'') = InCondWait
        \<and> status e'' = Executing
        \<and> count_list (trace e'') CallDoWork
            = count_list (trace (snd (Wake 0 parked_Element))) CallDoWork)"
proof -
  obtain e where e: "worker_steps (Suc (Suc 0)) (snd (Wake 0 playing_Element)) = Some e"
    and eb: "pc (thread e) = AtLoopBody" and ep: "state e = Play"
    by (simp add: playing_Element_eq Wake_def Log_def worker_step_def goto_def sleep_gate_def)
  from eb have "worker_step e \<noteq> None"
    using C8_DoWork_only_in_Play[of e] by blast
  then obtain e' where s: "worker_step e = Some e'" by blast
  from C8_DoWork_only_in_Play[of e e'] s eb ep
  have c: "count_list (trace e') CallDoWork = count_list (trace e) CallDoWork + 1"
    and g: "pc (thread e') = AtSleepGate"
    by simp_all
  obtain e'' where
    e'': "worker_steps (Suc (Suc (Suc (Suc 0)))) (snd (Wake 0 parked_Element)) = Some e''"
    and w: "pc (thread e'') = InCondWait"
    by (simp add: parked_Element_eq Wake_def Log_def worker_step_def goto_def sleep_gate_def)
  have p: "state (snd (Wake 0 parked_Element)) = Pause"
    "in_loop (snd (Wake 0 parked_Element))"
    "\<not> cancelRequested (thread (snd (Wake 0 parked_Element)))"
    by (simp_all add: parked_Element_eq Wake_def Log_def in_loop_def)
  from C8_DoWork_only_in_Play[of "snd (Wake 0 parked_Element)" _ "Suc (Suc (Suc (Suc 0)))" e'']
    p e''
  have "status e'' = Executing"
    and "count_list (trace e'') CallDoWork
          = count_list (trace (snd (Wake 0 parked_Element))) CallDoWork"
    by simp_all
  with e e'' eb ep s c g w p show ?thesis by blast
qed

end
